theory Spec2Isabelle
  imports Main "HOL-Library.Word"
begin

section \<open>The einops placeholder setup script\<close>

text \<open>
  The program is \<^verbatim>\<open>src/scripts/setup.py\<close>. After its two imports it is one statement,
  lines 12 to 29:
  \<^verbatim>\<open>
  setup(
      name="einops",
      version="0.7.0",
      description="A new flavour of deep learning operations",
      long_description=Path("README.md").read_text(),
      long_description_content_type="text/markdown",
      url="https://github.com/arogozhnikov/einops",
      author="Alex Rogozhnikov",
      classifiers=[
          "Intended Audience :: Science/Research",
          "Programming Language :: Python :: 3 ",
          "License :: OSI Approved :: MIT License",
      ],
      keywords="deep learning, neural networks, tensor manipulation, machine learning, scientific computations, einops",
      install_requires=[],
  )
  \<close>
  The embedding covers that statement: the keyword arguments are evaluated from left to
  right, the only one with an effect being the read of \<^verbatim>\<open>README.md\<close>, and the
  resulting keyword arguments are passed to \<^verbatim>\<open>setuptools.setup\<close>. What
  \<^verbatim>\<open>setuptools.setup\<close> does with them is outside the program, so the call is
  modelled as the event of handing them over, and whether the tool then returns or
  raises is a parameter.
\<close>

subsection \<open>Python values\<close>

text \<open>
  A Python \<^verbatim>\<open>str\<close> is a sequence of Unicode code points; a file on disk is a
  sequence of bytes. The two are kept apart, since \<^verbatim>\<open>read_text\<close> turns one into
  the other.
\<close>

type_synonym byte = "8 word"
type_synonym py_str = "nat list"

text \<open>A string literal of the source. All literals of the script are ASCII.\<close>

definition lit :: "string \<Rightarrow> py_str" where
  "lit s = map of_char s"

text \<open>The values that occur as keyword arguments: strings and lists.\<close>

datatype pyval = is_PyStr: PyStr py_str | is_PyList: PyList "pyval list"

text \<open>
  Keyword arguments of a call, in the order they are written: the name of each argument
  with its value.
\<close>

type_synonym kwargs = "(string \<times> pyval) list"

subsection \<open>The environment of an invocation\<close>

text \<open>
  A path is its list of components. The file system maps absolute paths to what the
  operating system finds there when the path is opened for reading; no entry means that
  it finds nothing (\<^verbatim>\<open>ENOENT\<close>). A regular file carries whether the invoking user may
  read it, and its bytes. A directory is one whose open is answered with \<^verbatim>\<open>EISDIR\<close>.
  Every other refusal is a node of its own that carries the error reported: a directory
  that may not be read, a path through a directory that may not be searched, a loop of
  symbolic links, a directory on a system that answers \<^verbatim>\<open>EACCES\<close> for it.
\<close>

type_synonym path = "string list"

text \<open>
  The exceptions: those of the read, and \<^verbatim>\<open>SystemExit\<close>, which \<^verbatim>\<open>setup\<close> raises
  when the command line names no command or an invalid one.
\<close>

datatype py_error =
    FileNotFoundError
  | IsADirectoryError
  | PermissionError
  | OSError
  | UnicodeDecodeError
  | SystemExit

datatype node = RegularFile bool "byte list" | Directory | Unopenable py_error

datatype event = is_OpenRead: OpenRead path | is_CallSetup: CallSetup kwargs

text \<open>
  The world an invocation runs in: the current working directory, the directory holding
  the script, the file system, the decoder of the default text encoding (the one
  \<^verbatim>\<open>open\<close> uses when no \<^verbatim>\<open>encoding\<close> is given, taken from the locale), and
  the trace of operations performed so far.
\<close>

record world =
  cwd :: path
  script_dir :: path
  files :: "path \<Rightarrow> node option"
  locale_decode :: "byte list \<Rightarrow> py_str option"
  trace :: "event list"

subsection \<open>Reading a text file\<close>

text \<open>
  In text mode with \<^verbatim>\<open>newline=None\<close> (the default, which \<^verbatim>\<open>read_text()\<close>
  uses) Python translates every line ending on input: \<^verbatim>\<open>\r\n\<close> and a lone
  \<^verbatim>\<open>\r\<close> both become \<^verbatim>\<open>\n\<close>. Carriage return is code point 13, line feed 10.
\<close>

fun universal_newlines :: "py_str \<Rightarrow> py_str" where
  "universal_newlines [] = []"
| "universal_newlines (c # cs) =
     (if c = 13 then
        (case cs of
           [] \<Rightarrow> [10]
         | d # ds \<Rightarrow> if d = 10 then 10 # universal_newlines ds
                    else 10 # universal_newlines cs)
      else c # universal_newlines cs)"

text \<open>A relative path is resolved by the operating system against the working directory.\<close>

definition resolve :: "world \<Rightarrow> path \<Rightarrow> path" where
  "resolve w p = cwd w @ p"

text \<open>
  \<^verbatim>\<open>Path(p).read_text()\<close>: open the file for reading, decode all of its bytes with
  the default encoding (errors are strict), translate the line endings, close the file.
  The open is recorded in the trace whether or not it succeeds. Nothing is written.
\<close>

definition read_text :: "path \<Rightarrow> world \<Rightarrow> world \<times> (py_error + py_str)" where
  "read_text p w =
     (let w' = w\<lparr>trace := trace w @ [OpenRead (resolve w p)]\<rparr> in
      case files w (resolve w p) of
        None \<Rightarrow> (w', Inl FileNotFoundError)
      | Some Directory \<Rightarrow> (w', Inl IsADirectoryError)
      | Some (Unopenable e) \<Rightarrow> (w', Inl e)
      | Some (RegularFile readable bs) \<Rightarrow>
          if \<not> readable then (w', Inl PermissionError)
          else (case locale_decode w bs of
                  None \<Rightarrow> (w', Inl UnicodeDecodeError)
                | Some cps \<Rightarrow> (w', Inr (universal_newlines cps))))"

subsection \<open>The script\<close>

text \<open>The keyword arguments of the call, given the value read for \<^verbatim>\<open>long_description\<close>.\<close>

definition setup_kwargs :: "py_str \<Rightarrow> kwargs" where
  "setup_kwargs readme =
     [(''name'', PyStr (lit ''einops'')),
      (''version'', PyStr (lit ''0.7.0'')),
      (''description'', PyStr (lit ''A new flavour of deep learning operations'')),
      (''long_description'', PyStr readme),
      (''long_description_content_type'', PyStr (lit ''text/markdown'')),
      (''url'', PyStr (lit ''https://github.com/arogozhnikov/einops'')),
      (''author'', PyStr (lit ''Alex Rogozhnikov'')),
      (''classifiers'', PyList
         [PyStr (lit ''Intended Audience :: Science/Research''),
          PyStr (lit ''Programming Language :: Python :: 3 ''),
          PyStr (lit ''License :: OSI Approved :: MIT License'')]),
      (''keywords'', PyStr (lit
         ''deep learning, neural networks, tensor manipulation, machine learning, scientific computations, einops'')),
      (''install_requires'', PyList [])]"

text \<open>
  The call of \<^verbatim>\<open>setup\<close>, imported from \<^verbatim>\<open>setuptools\<close>, up to the point where the
  tool has received the keyword arguments: they are handed over. What the tool then does
  is \<open>invocation\<close> below. (The bare name is a command of the theory language, hence the
  longer one.)
\<close>

definition setuptools_setup :: "kwargs \<Rightarrow> world \<Rightarrow> world \<times> (py_error + kwargs)" where
  "setuptools_setup kw w = (w\<lparr>trace := trace w @ [CallSetup kw]\<rparr>, Inr kw)"

text \<open>
  The statement at lines 12 to 29, up to the handover. An exception raised while the
  arguments are evaluated propagates: the script has no handler, so the call is not made.
  The result is the uncaught exception, or the keyword arguments that were handed over.
\<close>

definition script :: "world \<Rightarrow> world \<times> (py_error + kwargs)" where
  "script w =
     (case read_text [''README.md''] w of
        (w1, Inl e) \<Rightarrow> (w1, Inl e)
      | (w1, Inr text) \<Rightarrow> setuptools_setup (setup_kwargs text) w1)"

text \<open>
  What \<^verbatim>\<open>setup\<close> does with the keyword arguments is the business of the external
  tool: it returns, or it raises. The tool is a parameter, the function from the
  arguments it receives to the exception it raises, if any. The statement has no handler
  around the call either, so an exception of the tool ends the invocation as well.
\<close>

definition invocation ::
  "(kwargs \<Rightarrow> py_error option) \<Rightarrow> world \<Rightarrow> world \<times> (py_error + kwargs)" where
  "invocation tool w =
     (case script w of
        (w1, Inl e) \<Rightarrow> (w1, Inl e)
      | (w1, Inr kw) \<Rightarrow>
          (case tool kw of None \<Rightarrow> (w1, Inr kw) | Some e \<Rightarrow> (w1, Inl e)))"

text \<open>Reading the value of a keyword argument by its name.\<close>

definition field :: "kwargs \<Rightarrow> string \<Rightarrow> pyval option" where
  "field kw k = map_of kw k"

subsection \<open>Two text encodings\<close>

text \<open>
  Two decoders a locale can select. Latin-1 maps every byte to the code point of the same
  number and never fails.
\<close>

definition latin1_decode :: "byte list \<Rightarrow> py_str option" where
  "latin1_decode bs = Some (map unat bs)"

text \<open>
  UTF-8, strict: one to four bytes per code point, continuation bytes in 0x80 to 0xBF, no
  overlong forms, no surrogates, nothing above U+10FFFF.
\<close>

definition cont :: "byte \<Rightarrow> bool" where
  "cont b = (0x80 \<le> b \<and> b \<le> 0xBF)"

definition low6 :: "byte \<Rightarrow> nat" where
  "low6 b = unat b - 0x80"

fun utf8_decode :: "byte list \<Rightarrow> py_str option" where
  "utf8_decode [] = Some []"
| "utf8_decode (b # bs) =
     (if b < 0x80 then map_option ((#) (unat b)) (utf8_decode bs)
      else if 0xC2 \<le> b \<and> b \<le> 0xDF then
        (case bs of
           c1 # r \<Rightarrow>
             if cont c1
             then map_option ((#) ((unat b - 0xC0) * 64 + low6 c1)) (utf8_decode r)
             else None
         | _ \<Rightarrow> None)
      else if 0xE0 \<le> b \<and> b \<le> 0xEF then
        (case bs of
           c1 # c2 # r \<Rightarrow>
             if cont c1 \<and> cont c2 \<and> (if b = 0xE0 then 0xA0 \<le> c1 else True)
                \<and> (if b = 0xED then c1 \<le> 0x9F else True)
             then map_option ((#) ((unat b - 0xE0) * 4096 + low6 c1 * 64 + low6 c2))
                    (utf8_decode r)
             else None
         | _ \<Rightarrow> None)
      else if 0xF0 \<le> b \<and> b \<le> 0xF4 then
        (case bs of
           c1 # c2 # c3 # r \<Rightarrow>
             if cont c1 \<and> cont c2 \<and> cont c3 \<and> (if b = 0xF0 then 0x90 \<le> c1 else True)
                \<and> (if b = 0xF4 then c1 \<le> 0x8F else True)
             then map_option
                    ((#) ((unat b - 0xF0) * 262144 + low6 c1 * 4096 + low6 c2 * 64 + low6 c3))
                    (utf8_decode r)
             else None
         | _ \<Rightarrow> None)
      else None)"

text \<open>
  The operations an invocation started in world \<open>w\<close> performs: what it appends to the
  trace.
\<close>

definition performed :: "world \<Rightarrow> event list" where
  "performed w = drop (length (trace w)) (trace (fst (script w)))"

subsection \<open>Concrete invocations\<close>

text \<open>
  A checkout of the repository at \<^verbatim>\<open>/home/repo\<close>: the script is in its
  \<^verbatim>\<open>scripts\<close> directory, the README at its root holds the nine bytes of
  \<^verbatim>\<open># einops\<close> and a line feed.
\<close>

definition readme_bytes :: "byte list" where
  "readme_bytes = [0x23, 0x20, 0x65, 0x69, 0x6E, 0x6F, 0x70, 0x73, 0x0A]"

definition checkout :: "byte list \<Rightarrow> bool \<Rightarrow> path \<Rightarrow> node option" where
  "checkout bs readable =
     [[''home'', ''repo''] \<mapsto> Directory,
      [''home'', ''repo'', ''scripts''] \<mapsto> Directory,
      [''home'', ''repo'', ''README.md''] \<mapsto> RegularFile readable bs]"

definition repo_world :: world where
  "repo_world =
     \<lparr>cwd = [''home'', ''repo''], script_dir = [''home'', ''repo'', ''scripts''],
      files = checkout readme_bytes True, locale_decode = utf8_decode, trace = []\<rparr>"

text \<open>The same checkout with a README saved with Windows line endings: \<^verbatim>\<open>a\r\nb\<close>.\<close>

definition crlf_bytes :: "byte list" where
  "crlf_bytes = [0x61, 0x0D, 0x0A, 0x62]"

definition crlf_world :: world where
  "crlf_world = repo_world\<lparr>files := checkout crlf_bytes True\<rparr>"

text \<open>
  A README holding the two bytes 0xC3 0xA9 (the UTF-8 form of U+00E9), read once under a
  UTF-8 locale and once under a Latin-1 locale.
\<close>

definition accent_bytes :: "byte list" where
  "accent_bytes = [0xC3, 0xA9]"

definition utf8_world :: world where
  "utf8_world = repo_world\<lparr>files := checkout accent_bytes True\<rparr>"

definition latin1_world :: world where
  "latin1_world = utf8_world\<lparr>locale_decode := latin1_decode\<rparr>"

text \<open>A README the invoking user has no permission to read.\<close>

definition denied_world :: world where
  "denied_world = repo_world\<lparr>files := checkout readme_bytes False\<rparr>"

text \<open>The invocation started from the directory of the script instead of the root.\<close>

definition scripts_world :: world where
  "scripts_world = repo_world\<lparr>cwd := [''home'', ''repo'', ''scripts'']\<rparr>"

text \<open>
  A checkout that has a second README, next to the script, holding \<^verbatim>\<open>accent_bytes\<close>;
  the invocation is started once from the root and once from the directory of the script.
\<close>

definition two_readmes :: "path \<Rightarrow> node option" where
  "two_readmes =
     (checkout readme_bytes True)
       ([''home'', ''repo'', ''scripts'', ''README.md''] \<mapsto> RegularFile True accent_bytes)"

definition nested_root_world :: world where
  "nested_root_world = repo_world\<lparr>files := two_readmes\<rparr>"

definition nested_scripts_world :: world where
  "nested_scripts_world = nested_root_world\<lparr>cwd := [''home'', ''repo'', ''scripts'']\<rparr>"

section \<open>Properties\<close>

subsection \<open>What an invocation does\<close>

lemma script_result:
  "snd (script w) =
     (case files w (cwd w @ [''README.md'']) of
        None \<Rightarrow> Inl FileNotFoundError
      | Some Directory \<Rightarrow> Inl IsADirectoryError
      | Some (Unopenable e) \<Rightarrow> Inl e
      | Some (RegularFile readable bs) \<Rightarrow>
          if \<not> readable then Inl PermissionError
          else (case locale_decode w bs of
                  None \<Rightarrow> Inl UnicodeDecodeError
                | Some cps \<Rightarrow> Inr (setup_kwargs (universal_newlines cps))))"
  by (simp add: script_def read_text_def resolve_def setuptools_setup_def Let_def
      split: option.splits node.splits)

lemma read_text_result:
  "snd (read_text p w) =
     (case files w (cwd w @ p) of
        None \<Rightarrow> Inl FileNotFoundError
      | Some Directory \<Rightarrow> Inl IsADirectoryError
      | Some (Unopenable e) \<Rightarrow> Inl e
      | Some (RegularFile readable bs) \<Rightarrow>
          if \<not> readable then Inl PermissionError
          else (case locale_decode w bs of
                  None \<Rightarrow> Inl UnicodeDecodeError
                | Some cps \<Rightarrow> Inr (universal_newlines cps)))"
  by (simp add: read_text_def resolve_def Let_def split: option.splits node.splits)

lemma script_world:
  "fst (script w) =
     w\<lparr>trace := trace w @ OpenRead (cwd w @ [''README.md'']) #
        (case snd (script w) of Inl e \<Rightarrow> [] | Inr kw \<Rightarrow> [CallSetup kw])\<rparr>"
  by (simp add: script_def read_text_def resolve_def setuptools_setup_def Let_def
      split: option.splits node.splits)

lemma performed_eq:
  "performed w = OpenRead (cwd w @ [''README.md'']) #
        (case snd (script w) of Inl e \<Rightarrow> [] | Inr kw \<Rightarrow> [CallSetup kw])"
  unfolding performed_def by (subst script_world) simp

lemma script_Inr:
  "snd (script w) = Inr kw \<Longrightarrow> \<exists>text. kw = setup_kwargs text"
  by (auto simp: script_result split: option.splits node.splits if_splits)

lemma universal_newlines_no_cr: "13 \<notin> set cs \<Longrightarrow> universal_newlines cs = cs"
  by (induction cs) auto

lemma field_long_description: "field (setup_kwargs t) ''long_description'' = Some (PyStr t)"
  by (simp add: field_def setup_kwargs_def)

subsection \<open>The concrete invocations\<close>

lemma repo_readme:
  "files repo_world (cwd repo_world @ [''README.md'']) = Some (RegularFile True readme_bytes)"
  by (simp add: repo_world_def checkout_def)

lemma repo_decode:
  "locale_decode repo_world readme_bytes = Some [35, 32, 101, 105, 110, 111, 112, 115, 10]"
  by (simp add: repo_world_def readme_bytes_def)

lemma repo_result:
  "snd (script repo_world) = Inr (setup_kwargs [35, 32, 101, 105, 110, 111, 112, 115, 10])"
  by (simp add: script_result repo_readme repo_decode)

lemma crlf_result: "snd (script crlf_world) = Inr (setup_kwargs [97, 10, 98])"
  by (simp add: script_result crlf_world_def repo_world_def checkout_def crlf_bytes_def)

lemma utf8_result: "snd (script utf8_world) = Inr (setup_kwargs [233])"
  by (simp add: script_result utf8_world_def repo_world_def checkout_def accent_bytes_def
      cont_def low6_def)

lemma latin1_result: "snd (script latin1_world) = Inr (setup_kwargs [195, 169])"
  by (simp add: script_result latin1_world_def utf8_world_def repo_world_def checkout_def
      accent_bytes_def latin1_decode_def)

lemma denied_result: "snd (script denied_world) = Inl PermissionError"
  by (simp add: script_result denied_world_def repo_world_def checkout_def)

lemma scripts_result: "snd (script scripts_world) = Inl FileNotFoundError"
  by (simp add: script_result scripts_world_def repo_world_def checkout_def)

lemma nested_root_result:
  "snd (script nested_root_world) =
     Inr (setup_kwargs [35, 32, 101, 105, 110, 111, 112, 115, 10])"
  by (simp add: script_result nested_root_world_def two_readmes_def repo_world_def
      checkout_def readme_bytes_def)

lemma nested_scripts_result: "snd (script nested_scripts_world) = Inr (setup_kwargs [233])"
  by (simp add: script_result nested_scripts_world_def nested_root_world_def two_readmes_def
      repo_world_def checkout_def accent_bytes_def cont_def low6_def)

subsection \<open>The long description\<close>

text \<open>
  Claim C1, as stated: whenever the README is readable, \<^verbatim>\<open>long_description\<close> equals
  the contents of the file byte for byte. It fails for a README with Windows line
  endings: the file holds the four bytes of \<^verbatim>\<open>a\r\nb\<close>, the field holds the three
  code points of \<^verbatim>\<open>a\nb\<close>.
\<close>

theorem long_description_crlf_counterexample:
  "files crlf_world (resolve crlf_world [''README.md'']) = Some (RegularFile True crlf_bytes)
   \<and> snd (script crlf_world) = Inr (setup_kwargs [97, 10, 98])
   \<and> field (setup_kwargs [97, 10, 98]) ''long_description'' = Some (PyStr [97, 10, 98])
   \<and> field (setup_kwargs [97, 10, 98]) ''long_description'' \<noteq> Some (PyStr (map unat crlf_bytes))"
  by (simp add: crlf_result field_long_description)
    (simp add: crlf_world_def repo_world_def checkout_def resolve_def crlf_bytes_def)

text \<open>
  Claim C1, amended: whenever the README is a readable file whose bytes the default
  encoding decodes, the record is handed over and its \<^verbatim>\<open>long_description\<close> is the
  decoded text with universal-newline translation applied; when the decoded text has no
  carriage return it is the decoded text unchanged, and when moreover the decoder maps
  the bytes to the code points of the same numbers (ASCII text under UTF-8 or Latin-1)
  it equals the contents of the file byte for byte.
\<close>

theorem long_description_decoded_text:
  assumes "files w (resolve w [''README.md'']) = Some (RegularFile True bs)"
    and "locale_decode w bs = Some cps"
  shows "\<exists>kw. snd (script w) = Inr kw
           \<and> field kw ''long_description'' = Some (PyStr (universal_newlines cps))
           \<and> (13 \<notin> set cps \<longrightarrow> field kw ''long_description'' = Some (PyStr cps))
           \<and> (13 \<notin> set cps \<and> cps = map unat bs \<longrightarrow>
                field kw ''long_description'' = Some (PyStr (map unat bs)))"
proof -
  from assms have r: "snd (script w) = Inr (setup_kwargs (universal_newlines cps))"
    by (simp add: script_result resolve_def)
  have f: "field (setup_kwargs (universal_newlines cps)) ''long_description''
             = Some (PyStr (universal_newlines cps))"
    by (rule field_long_description)
  show ?thesis
    using r f by (auto simp: universal_newlines_no_cr)
qed

theorem long_description_decoded_text_witness:
  "\<exists>kw. snd (script repo_world) = Inr kw
      \<and> field kw ''long_description'' = Some (PyStr (map unat readme_bytes))"
proof -
  have a: "files repo_world (resolve repo_world [''README.md''])
             = Some (RegularFile True readme_bytes)"
    by (simp add: resolve_def repo_readme)
  have b: "locale_decode repo_world readme_bytes = Some (map unat readme_bytes)"
    by (simp add: repo_decode) (simp add: readme_bytes_def)
  have c: "13 \<notin> set (map unat readme_bytes)"
    by (simp add: readme_bytes_def)
  from long_description_decoded_text [OF a b] c show ?thesis
    by auto
qed

subsection \<open>No dependencies\<close>

text \<open>
  Claim C2: in every invocation that builds the record, its \<^verbatim>\<open>install_requires\<close> is
  the empty list.
\<close>

theorem install_requires_empty:
  assumes "snd (script w) = Inr kw"
  shows "field kw ''install_requires'' = Some (PyList [])"
proof -
  from assms obtain t where "kw = setup_kwargs t"
    by (auto dest: script_Inr)
  then show ?thesis
    by (simp add: field_def setup_kwargs_def)
qed

theorem install_requires_empty_witness:
  "field (setup_kwargs [35, 32, 101, 105, 110, 111, 112, 115, 10]) ''install_requires''
     = Some (PyList [])"
  by (rule install_requires_empty [OF repo_result])

subsection \<open>Determinism\<close>

text \<open>
  Claim C3, as stated: two invocations that find the same README contents build the same
  record. It fails when the two run under different locales: the same two bytes are one
  code point under UTF-8 and two under Latin-1, so the two records differ in
  \<^verbatim>\<open>long_description\<close>.
\<close>

theorem same_readme_other_locale_counterexample:
  "files utf8_world = files latin1_world
   \<and> cwd utf8_world = cwd latin1_world
   \<and> snd (script utf8_world) = Inr (setup_kwargs [233])
   \<and> snd (script latin1_world) = Inr (setup_kwargs [195, 169])
   \<and> snd (script utf8_world) \<noteq> snd (script latin1_world)"
  by (simp add: utf8_result latin1_result)
    (simp add: latin1_world_def setup_kwargs_def)

text \<open>
  Claim C3, amended: two invocations that find the same README (the same node at the
  path each of them opens) and run under the same default text encoding have the same
  outcome: the same record in every field, or the same error.
\<close>

theorem same_readme_same_locale_same_record:
  assumes "files w1 (resolve w1 [''README.md'']) = files w2 (resolve w2 [''README.md''])"
    and "locale_decode w1 = locale_decode w2"
  shows "snd (script w1) = snd (script w2)"
  using assms by (simp add: script_result resolve_def split: option.splits node.splits)

theorem same_readme_same_locale_same_record_witness:
  "snd (script nested_root_world) = snd (script repo_world)"
proof -
  have a: "files nested_root_world (resolve nested_root_world [''README.md''])
             = files repo_world (resolve repo_world [''README.md''])"
    by (simp add: nested_root_world_def two_readmes_def repo_world_def checkout_def resolve_def)
  have b: "locale_decode nested_root_world = locale_decode repo_world"
    by (simp add: nested_root_world_def)
  show ?thesis
    by (rule same_readme_same_locale_same_record [OF a b])
qed

subsection \<open>Failure\<close>

text \<open>
  Claim C4, as stated: the script fails with a file-not-found error exactly when the
  README is absent or unreadable. It fails for a README the user may not read: the error
  is \<^verbatim>\<open>PermissionError\<close>, not \<^verbatim>\<open>FileNotFoundError\<close>.
\<close>

theorem permission_denied_counterexample:
  "files denied_world (resolve denied_world [''README.md''])
     = Some (RegularFile False readme_bytes)
   \<and> snd (script denied_world) = Inl PermissionError
   \<and> snd (script denied_world) \<noteq> Inl FileNotFoundError"
  by (simp add: denied_result)
    (simp add: denied_world_def repo_world_def checkout_def resolve_def)

text \<open>
  Claim C4, amended: before the record is handed to \<^verbatim>\<open>setup\<close> the script fails
  exactly when the README is absent or unreadable, that is, when no readable regular file
  whose bytes decode is at the path; the error is the one the read raises, passed on
  unchanged: \<^verbatim>\<open>FileNotFoundError\<close> when no file is at the path, the read's own error
  otherwise. There is no recovery and no fallback: a failing script has done nothing but
  the read, and no record is handed over. This is the only failure of the script's own;
  after the handover the outcome is that of \<^verbatim>\<open>setup\<close>, passed on as well, so the
  invocation as a whole fails exactly when the read fails or \<^verbatim>\<open>setup\<close> raises.
\<close>

theorem script_failure_modes:
  "(snd (script w) = Inl e \<longleftrightarrow> snd (read_text [''README.md''] w) = Inl e)
   \<and> ((\<exists>e'. snd (script w) = Inl e')
      \<longleftrightarrow> \<not> (\<exists>bs cps. files w (resolve w [''README.md'']) = Some (RegularFile True bs)
                       \<and> locale_decode w bs = Some cps))
   \<and> ((\<exists>e'. snd (script w) = Inl e')
      \<longleftrightarrow> performed w = [OpenRead (resolve w [''README.md''])])
   \<and> (files w (resolve w [''README.md'']) = None
      \<longrightarrow> snd (script w) = Inl FileNotFoundError)
   \<and> (snd (invocation tool w) = Inl e
      \<longleftrightarrow> snd (script w) = Inl e \<or> (\<exists>kw. snd (script w) = Inr kw \<and> tool kw = Some e))
   \<and> fst (invocation tool w) = fst (script w)"
proof -
  have a: "snd (script w) = Inl e \<longleftrightarrow> snd (read_text [''README.md''] w) = Inl e"
    by (auto simp: script_result read_text_result split: option.splits node.splits)
  have b: "(\<exists>e'. snd (script w) = Inl e')
      \<longleftrightarrow> \<not> (\<exists>bs cps. files w (resolve w [''README.md'']) = Some (RegularFile True bs)
                       \<and> locale_decode w bs = Some cps)"
    by (auto simp: script_result resolve_def split: option.splits node.splits)
  have c: "(\<exists>e'. snd (script w) = Inl e')
      \<longleftrightarrow> performed w = [OpenRead (resolve w [''README.md''])]"
    by (cases "snd (script w)") (simp_all add: performed_eq resolve_def)
  have d: "files w (resolve w [''README.md'']) = None
      \<longrightarrow> snd (script w) = Inl FileNotFoundError"
    by (simp add: script_result resolve_def)
  have f: "snd (invocation tool w) = Inl e
      \<longleftrightarrow> snd (script w) = Inl e \<or> (\<exists>kw. snd (script w) = Inr kw \<and> tool kw = Some e)"
    by (cases "script w") (auto simp: invocation_def split: sum.splits option.splits)
  have g: "fst (invocation tool w) = fst (script w)"
    by (cases "script w") (auto simp: invocation_def split: sum.splits option.splits)
  from a b c d f g show ?thesis
    by blast
qed

theorem script_failure_modes_witness:
  "files scripts_world (resolve scripts_world [''README.md'']) = None
   \<and> snd (script scripts_world) = Inl FileNotFoundError
   \<and> snd (read_text [''README.md''] scripts_world) = Inl FileNotFoundError
   \<and> performed scripts_world = [OpenRead [''home'', ''repo'', ''scripts'', ''README.md'']]
   \<and> snd (invocation (\<lambda>kw. None) scripts_world) = Inl FileNotFoundError
   \<and> snd (invocation (\<lambda>kw. Some SystemExit) repo_world) = Inl SystemExit"
proof -
  have a: "files scripts_world (resolve scripts_world [''README.md'']) = None"
    by (simp add: scripts_world_def repo_world_def checkout_def resolve_def)
  have b: "resolve scripts_world [''README.md''] = [''home'', ''repo'', ''scripts'', ''README.md'']"
    by (simp add: scripts_world_def resolve_def)
  from script_failure_modes [of scripts_world FileNotFoundError "\<lambda>kw. None"] a b
  have "snd (script scripts_world) = Inl FileNotFoundError
    \<and> snd (read_text [''README.md''] scripts_world) = Inl FileNotFoundError
    \<and> performed scripts_world = [OpenRead [''home'', ''repo'', ''scripts'', ''README.md'']]
    \<and> snd (invocation (\<lambda>kw. None) scripts_world) = Inl FileNotFoundError"
    by auto
  moreover from script_failure_modes [of repo_world SystemExit "\<lambda>kw. Some SystemExit"]
  have "snd (invocation (\<lambda>kw. Some SystemExit) repo_world) = Inl SystemExit"
    by (simp add: repo_result)
  ultimately show ?thesis
    using a by simp
qed

subsection \<open>The fields of the record\<close>

text \<open>
  Claim C5: in every invocation that builds the record, the record has exactly the ten
  fields \<^verbatim>\<open>name\<close>, \<^verbatim>\<open>version\<close>, \<^verbatim>\<open>description\<close>,
  \<^verbatim>\<open>long_description\<close>, \<^verbatim>\<open>long_description_content_type\<close>, \<^verbatim>\<open>url\<close>,
  \<^verbatim>\<open>author\<close>, \<^verbatim>\<open>classifiers\<close>, \<^verbatim>\<open>keywords\<close> and
  \<^verbatim>\<open>install_requires\<close>, each set once and no other, and \<^verbatim>\<open>classifiers\<close> is a
  list whose elements are strings.
\<close>

theorem record_fields:
  assumes "snd (script w) = Inr kw"
  shows "map fst kw =
           [''name'', ''version'', ''description'', ''long_description'',
            ''long_description_content_type'', ''url'', ''author'', ''classifiers'',
            ''keywords'', ''install_requires'']
         \<and> distinct (map fst kw)
         \<and> (\<exists>cs. field kw ''classifiers'' = Some (PyList cs) \<and> list_all is_PyStr cs)"
proof -
  from assms obtain t where "kw = setup_kwargs t"
    by (auto dest: script_Inr)
  then show ?thesis
    by (simp add: field_def setup_kwargs_def)
qed

theorem record_fields_witness:
  "map fst (setup_kwargs [35, 32, 101, 105, 110, 111, 112, 115, 10]) =
     [''name'', ''version'', ''description'', ''long_description'',
      ''long_description_content_type'', ''url'', ''author'', ''classifiers'',
      ''keywords'', ''install_requires'']"
  using record_fields [OF repo_result] by simp

subsection \<open>The keywords\<close>

text \<open>
  Claim C6, as stated: the \<^verbatim>\<open>keywords\<close> field is a list of keyword strings. It
  fails in the checkout: the field is one string, not a list.
\<close>

theorem keywords_list_counterexample:
  "snd (script repo_world) = Inr (setup_kwargs [35, 32, 101, 105, 110, 111, 112, 115, 10])
   \<and> map_option is_PyList
        (field (setup_kwargs [35, 32, 101, 105, 110, 111, 112, 115, 10]) ''keywords'')
      = Some False"
  by (simp add: repo_result) (simp add: field_def setup_kwargs_def)

text \<open>
  Claim C6, amended: in every invocation that builds the record, the \<^verbatim>\<open>keywords\<close>
  field is a single string, the comma-separated text written in the script.
\<close>

theorem keywords_single_string:
  assumes "snd (script w) = Inr kw"
  shows "field kw ''keywords'' = Some (PyStr (lit
    ''deep learning, neural networks, tensor manipulation, machine learning, scientific computations, einops''))"
proof -
  from assms obtain t where "kw = setup_kwargs t"
    by (auto dest: script_Inr)
  then show ?thesis
    by (simp add: field_def setup_kwargs_def)
qed

theorem keywords_single_string_witness:
  "field (setup_kwargs [35, 32, 101, 105, 110, 111, 112, 115, 10]) ''keywords'' = Some (PyStr (lit
    ''deep learning, neural networks, tensor manipulation, machine learning, scientific computations, einops''))"
  by (rule keywords_single_string [OF repo_result])

subsection \<open>One construction, no mutation, no store\<close>

text \<open>
  Claim C7: the record is built once per invocation and not changed afterwards. Among the
  operations of an invocation there is at most one call of \<^verbatim>\<open>setup\<close>: none when the
  read failed, else exactly one, whose argument is the record as it was built from the
  text that \<^verbatim>\<open>read_text\<close> returned; and the invocation leaves the file system as it
  found it, so the record is written to no store.
\<close>

theorem record_built_once_and_unchanged:
  "filter is_CallSetup (performed w) =
     (case snd (script w) of Inl e \<Rightarrow> [] | Inr kw \<Rightarrow> [CallSetup kw])
   \<and> files (fst (script w)) = files w
   \<and> (\<forall>kw. snd (script w) = Inr kw \<longrightarrow>
        (\<exists>t. snd (read_text [''README.md''] w) = Inr t \<and> kw = setup_kwargs t))"
proof -
  have "filter is_CallSetup (performed w) =
          (case snd (script w) of Inl e \<Rightarrow> [] | Inr kw \<Rightarrow> [CallSetup kw])"
    by (cases "snd (script w)") (simp_all add: performed_eq)
  moreover have "files (fst (script w)) = files w"
    by (subst script_world) simp
  moreover have "\<forall>kw. snd (script w) = Inr kw \<longrightarrow>
        (\<exists>t. snd (read_text [''README.md''] w) = Inr t \<and> kw = setup_kwargs t)"
    by (auto simp: script_result read_text_result split: option.splits node.splits if_splits)
  ultimately show ?thesis
    by blast
qed

theorem record_built_once_and_unchanged_witness:
  "filter is_CallSetup (performed repo_world) =
     [CallSetup (setup_kwargs [35, 32, 101, 105, 110, 111, 112, 115, 10])]
   \<and> files (fst (script repo_world)) = files repo_world
   \<and> snd (read_text [''README.md''] repo_world) = Inr [35, 32, 101, 105, 110, 111, 112, 115, 10]"
proof -
  have "snd (read_text [''README.md''] repo_world) = Inr [35, 32, 101, 105, 110, 111, 112, 115, 10]"
    by (simp add: read_text_result repo_readme repo_decode)
  with record_built_once_and_unchanged [of repo_world] show ?thesis
    by (simp add: repo_result)
qed

subsection \<open>One read, nothing else\<close>

text \<open>
  Claim C8: every invocation performs exactly one file read, of the README, and no other
  operation before the record is handed over: its operations are the read, followed by
  the call of \<^verbatim>\<open>setup\<close> unless the read failed, in every world alike; and the world
  after the invocation is the world before it, but for that trace.
\<close>

theorem one_read_nothing_else:
  "filter is_OpenRead (performed w) = [OpenRead (resolve w [''README.md''])]
   \<and> performed w =
       OpenRead (resolve w [''README.md'']) #
         (case snd (script w) of Inl e \<Rightarrow> [] | Inr kw \<Rightarrow> [CallSetup kw])
   \<and> fst (script w) = w\<lparr>trace := trace w @ performed w\<rparr>"
proof -
  have p: "performed w =
       OpenRead (resolve w [''README.md'']) #
         (case snd (script w) of Inl e \<Rightarrow> [] | Inr kw \<Rightarrow> [CallSetup kw])"
    by (simp add: performed_eq resolve_def)
  have "filter is_OpenRead (performed w) = [OpenRead (resolve w [''README.md''])]"
    by (cases "snd (script w)") (simp_all add: p)
  moreover have "fst (script w) = w\<lparr>trace := trace w @ performed w\<rparr>"
    by (subst script_world) (simp add: performed_eq)
  ultimately show ?thesis
    using p by blast
qed

theorem one_read_nothing_else_witness:
  "performed repo_world =
     [OpenRead [''home'', ''repo'', ''README.md''],
      CallSetup (setup_kwargs [35, 32, 101, 105, 110, 111, 112, 115, 10])]
   \<and> performed scripts_world = [OpenRead [''home'', ''repo'', ''scripts'', ''README.md'']]"
proof -
  have a: "resolve repo_world [''README.md''] = [''home'', ''repo'', ''README.md'']"
    by (simp add: resolve_def repo_world_def)
  have b: "resolve scripts_world [''README.md''] = [''home'', ''repo'', ''scripts'', ''README.md'']"
    by (simp add: resolve_def scripts_world_def)
  from one_read_nothing_else [of repo_world] one_read_nothing_else [of scripts_world]
  show ?thesis
    by (simp add: a b repo_result scripts_result)
qed

subsection \<open>The path of the README\<close>

text \<open>
  Claim C9: the README is addressed by the relative path \<^verbatim>\<open>README.md\<close>. The file
  opened is the one of that name in the working directory; where the script itself lies
  changes neither the outcome nor the operations; the working directory does change
  them: in one and the same checkout the invocation succeeds from the root and fails
  from the directory of the script, and in a checkout with a README in both directories
  the two invocations hand over records that differ, the \<^verbatim>\<open>long_description\<close> of each
  being the text of the README in its own working directory.
\<close>

theorem readme_relative_to_cwd:
  "hd (performed w) = OpenRead (cwd w @ [''README.md''])
   \<and> snd (script (w\<lparr>script_dir := d\<rparr>)) = snd (script w)
   \<and> performed (w\<lparr>script_dir := d\<rparr>) = performed w
   \<and> files scripts_world = files repo_world
   \<and> script_dir scripts_world = script_dir repo_world
   \<and> snd (script repo_world) = Inr (setup_kwargs [35, 32, 101, 105, 110, 111, 112, 115, 10])
   \<and> snd (script scripts_world) = Inl FileNotFoundError
   \<and> files nested_scripts_world = files nested_root_world
   \<and> script_dir nested_scripts_world = script_dir nested_root_world
   \<and> snd (script nested_root_world)
       = Inr (setup_kwargs [35, 32, 101, 105, 110, 111, 112, 115, 10])
   \<and> snd (script nested_scripts_world) = Inr (setup_kwargs [233])
   \<and> (case snd (script nested_root_world) of
         Inl e \<Rightarrow> None | Inr kw \<Rightarrow> field kw ''long_description'')
       = Some (PyStr [35, 32, 101, 105, 110, 111, 112, 115, 10])
   \<and> (case snd (script nested_scripts_world) of
         Inl e \<Rightarrow> None | Inr kw \<Rightarrow> field kw ''long_description'')
       = Some (PyStr [233])
   \<and> snd (script nested_root_world) \<noteq> snd (script nested_scripts_world)"
proof -
  have "hd (performed w) = OpenRead (cwd w @ [''README.md''])"
    by (simp add: performed_eq)
  moreover have r: "snd (script (w\<lparr>script_dir := d\<rparr>)) = snd (script w)"
    by (simp add: script_result split: option.splits node.splits)
  moreover have "performed (w\<lparr>script_dir := d\<rparr>) = performed w"
    by (simp add: performed_eq r)
  moreover have "files scripts_world = files repo_world"
    and "script_dir scripts_world = script_dir repo_world"
    by (simp_all add: scripts_world_def)
  moreover have "files nested_scripts_world = files nested_root_world"
    and "script_dir nested_scripts_world = script_dir nested_root_world"
    by (simp_all add: nested_scripts_world_def)
  moreover have "setup_kwargs [35, 32, 101, 105, 110, 111, 112, 115, 10] \<noteq> setup_kwargs [233]"
    by (simp add: setup_kwargs_def)
  ultimately show ?thesis
    by (simp add: repo_result scripts_result nested_root_result nested_scripts_result
        field_long_description)
qed

theorem readme_relative_to_cwd_witness:
  "hd (performed repo_world) = OpenRead [''home'', ''repo'', ''README.md'']
   \<and> snd (script (repo_world\<lparr>script_dir := [''tmp'']\<rparr>)) = snd (script repo_world)
   \<and> snd (script nested_root_world) \<noteq> snd (script nested_scripts_world)"
proof -
  have c: "cwd repo_world = [''home'', ''repo'']"
    by (simp add: repo_world_def)
  from readme_relative_to_cwd [of repo_world "[''tmp'']"]
  have "hd (performed repo_world) = OpenRead (cwd repo_world @ [''README.md''])"
    and "snd (script (repo_world\<lparr>script_dir := [''tmp'']\<rparr>)) = snd (script repo_world)"
    and "snd (script nested_root_world) \<noteq> snd (script nested_scripts_world)"
    by blast+
  then show ?thesis
    by (simp add: c)
qed

subsection \<open>The classifiers\<close>

text \<open>
  Claim C10: in every invocation that builds the record, \<^verbatim>\<open>classifiers\<close> is the list of
  the three strings of the script, in their order; the second is 36 characters long and
  its last character is the space (code point 32) that the source has before the closing
  quote.
\<close>

theorem classifiers_value:
  assumes "snd (script w) = Inr kw"
  shows "field kw ''classifiers'' = Some (PyList
           [PyStr (lit ''Intended Audience :: Science/Research''),
            PyStr (lit ''Programming Language :: Python :: 3 ''),
            PyStr (lit ''License :: OSI Approved :: MIT License'')])
         \<and> length (lit ''Programming Language :: Python :: 3 '') = 36
         \<and> last (lit ''Programming Language :: Python :: 3 '') = 32
         \<and> lit ''Programming Language :: Python :: 3 ''
             \<noteq> lit ''Programming Language :: Python :: 3''"
proof -
  from assms obtain t where "kw = setup_kwargs t"
    by (auto dest: script_Inr)
  then have "field kw ''classifiers'' = Some (PyList
           [PyStr (lit ''Intended Audience :: Science/Research''),
            PyStr (lit ''Programming Language :: Python :: 3 ''),
            PyStr (lit ''License :: OSI Approved :: MIT License'')])"
    by (simp add: field_def setup_kwargs_def)
  then show ?thesis
    by (simp add: lit_def)
qed

theorem classifiers_value_witness:
  "field (setup_kwargs [35, 32, 101, 105, 110, 111, 112, 115, 10]) ''classifiers'' = Some (PyList
     [PyStr (lit ''Intended Audience :: Science/Research''),
      PyStr (lit ''Programming Language :: Python :: 3 ''),
      PyStr (lit ''License :: OSI Approved :: MIT License'')])"
  using classifiers_value [OF repo_result] by simp

end
